theory Spec2Isabelle
  imports Main "HOL-Library.Sublist" "HOL-Library.Char_ord" "HOL-Library.List_Lexorder"
begin

section \<open>run.py: records, frames and the persisted workbook\<close>

text \<open>
  A pandas DataFrame is modelled by its column header and its rows. A row carries the six
  canonical cells; a cell that is \<open>None\<close>/\<open>NaN\<close>, or that belongs to a column the frame does
  not have, is \<open>None\<close>. Cells of any further column of a sheet read from disk are not
  modelled, only the header remembers such a column. Time stamps are integers counting
  nanoseconds, as a pandas \<open>Timestamp\<close> does.
\<close>

type_synonym cell = "string option"
type_synonym time = int

datatype error = Exception string

record row =
  date :: cell
  title :: cell
  neighborhood :: cell
  action :: cell
  source :: cell
  link :: cell

record frame =
  columns :: "string list"
  rows :: "row list"

definition canonical_columns :: "string list" where
  "canonical_columns = [''date'', ''title'', ''neighborhood'', ''action'', ''source'', ''link'']"

text \<open>\<^verbatim>\<open>pd.DataFrame(columns=["date","title","neighborhood","action","source","link"])\<close>\<close>

definition empty_frame :: frame where
  "empty_frame = \<lparr>columns = canonical_columns, rows = []\<rparr>"

text \<open>\<^verbatim>\<open>df.empty\<close>: some axis of the frame has length zero.\<close>

definition is_empty :: "frame \<Rightarrow> bool" where
  "is_empty df = (rows df = [] \<or> columns df = [])"

definition DAILY_SHEET :: string where
  "DAILY_SHEET = ''daily_log''"

definition WEEKLY_SHEET :: string where
  "WEEKLY_SHEET = ''weekly_rollup''"

definition hours :: "int \<Rightarrow> time" where
  "hours h = h * 3600 * 1000000000"

definition days :: "int \<Rightarrow> time" where
  "days d = hours (24 * d)"

definition DAILY_WINDOW :: time where
  "DAILY_WINDOW = days 2"

definition WEEKLY_WINDOW :: time where
  "WEEKLY_WINDOW = days 7"

text \<open>
  The file at \<open>OUTPUT_XLSX\<close>: absent (\<open>None\<close>), not readable as a workbook, or a workbook, a
  list of named sheets.
\<close>

datatype xlsx = Workbook "(string \<times> frame) list" | Unreadable

type_synonym store = "xlsx option"

text \<open>
  The sheet of that name as the file stores it: \<open>None\<close> when the path does not exist and
  when \<open>read_excel\<close> raises (the file is not a workbook, or it has no such sheet).
\<close>

definition stored_sheet :: "store \<Rightarrow> string \<Rightarrow> frame option" where
  "stored_sheet path sheet =
     (case path of
        None \<Rightarrow> None
      | Some Unreadable \<Rightarrow> None
      | Some (Workbook sheets) \<Rightarrow> map_of sheets sheet)"

text \<open>
  What \<open>read_excel\<close> makes of a stored sheet. The header is kept, and a sheet without
  rows is read as a frame without rows. The rows of any other sheet go through the
  parameter \<open>read_rows\<close>, the conversion of the library: it reads an empty cell, and a text
  such as the empty text or \<open>NA\<close>, as \<open>NaN\<close>.
\<close>

definition read_excel :: "(row list \<Rightarrow> row list) \<Rightarrow> frame \<Rightarrow> frame" where
  "read_excel read_rows df = (if rows df = [] then df else df\<lparr>rows := read_rows (rows df)\<rparr>)"

text \<open>\<open>_load_sheet\<close>.\<close>

definition load_sheet :: "(row list \<Rightarrow> row list) \<Rightarrow> store \<Rightarrow> string \<Rightarrow> frame option" where
  "load_sheet read_rows path sheet = map_option (read_excel read_rows) (stored_sheet path sheet)"

text \<open>
  \<open>_save_excel\<close>. Mode \<open>"w"\<close> replaces the file by a workbook of exactly two sheets;
  \<open>save_excel\<close> is that workbook. The writer raises on a cell it cannot store: the
  parameter \<open>illegal\<close> tells these texts, and \<open>to_excel_raises\<close> holds when a cell of the
  frame is one.
\<close>

definition save_excel :: "frame option \<Rightarrow> frame option \<Rightarrow> xlsx" where
  "save_excel daily_df weekly_df =
     Workbook
       [(DAILY_SHEET, (case daily_df of Some d \<Rightarrow> d | None \<Rightarrow> empty_frame)),
        (WEEKLY_SHEET, (case weekly_df of Some w \<Rightarrow> w | None \<Rightarrow> empty_frame))]"

definition cells :: "row \<Rightarrow> cell list" where
  "cells r = [date r, title r, neighborhood r, action r, source r, link r]"

definition to_excel_raises :: "(string \<Rightarrow> bool) \<Rightarrow> frame \<Rightarrow> bool" where
  "to_excel_raises illegal df =
     list_ex (\<lambda>r. list_ex (\<lambda>c. case c of None \<Rightarrow> False | Some s \<Rightarrow> illegal s) (cells r))
       (rows df)"

text \<open>
  \<^verbatim>\<open>pd.to_datetime(df["date"], errors="coerce", utc=True)\<close> on one cell: the parameter
  \<open>to_datetime\<close> is the library's parser, \<open>None\<close> is \<open>NaT\<close> (an absent cell, or a text the
  parser cannot read).
\<close>

definition date_parsed :: "(string \<Rightarrow> time option) \<Rightarrow> row \<Rightarrow> time option" where
  "date_parsed to_datetime r = (case date r of None \<Rightarrow> None | Some s \<Rightarrow> to_datetime s)"

text \<open>
  \<open>_fresh_filter\<close>. The comparison \<^verbatim>\<open>df["date_parsed"] >= cutoff\<close> is false on \<open>NaT\<close>. The
  helper column \<open>date_parsed\<close> is added and dropped again.
\<close>

definition fresh_filter ::
  "(string \<Rightarrow> time option) \<Rightarrow> time \<Rightarrow> time \<Rightarrow> frame option \<Rightarrow> frame" where
  "fresh_filter to_datetime utcnow window_td df =
     (case df of
        None \<Rightarrow> empty_frame
      | Some f \<Rightarrow>
          if is_empty f then empty_frame
          else
            let cutoff = utcnow - window_td in
            \<lparr>columns = [c \<leftarrow> columns f. c \<noteq> ''date_parsed''],
             rows = [r \<leftarrow> rows f.
                       (case date_parsed to_datetime r of None \<Rightarrow> False | Some t \<Rightarrow> cutoff \<le> t)]\<rparr>)"

text \<open>
  \<open>_ensure_cols\<close>: a missing canonical column is added with \<open>None\<close> cells, then
  \<^verbatim>\<open>df[cols]\<close> selects the canonical columns in their order.
\<close>

definition ensure_cols :: "frame option \<Rightarrow> frame" where
  "ensure_cols df =
     (case df of None \<Rightarrow> empty_frame | Some f \<Rightarrow> f\<lparr>columns := canonical_columns\<rparr>)"

text \<open>The identity \<^verbatim>\<open>subset=["title","link"]\<close> of a row.\<close>

definition key :: "row \<Rightarrow> cell \<times> cell" where
  "key r = (title r, link r)"

text \<open>
  \<^verbatim>\<open>drop_duplicates(subset=["title","link"], keep="first")\<close>: a row is dropped when an
  earlier row has its (title, link) pair; \<open>seen\<close> holds the pairs met so far.
\<close>

fun keep_first :: "(cell \<times> cell) set \<Rightarrow> row list \<Rightarrow> row list" where
  "keep_first seen [] = []"
| "keep_first seen (r # rs) =
     (if key r \<in> seen then keep_first seen rs else r # keep_first (insert (key r) seen) rs)"

definition drop_duplicates :: "frame \<Rightarrow> frame" where
  "drop_duplicates df = df\<lparr>rows := keep_first {} (rows df)\<rparr>"

text \<open>
  \<^verbatim>\<open>pd.concat([a, b], ignore_index=True)\<close>: the rows of \<open>a\<close>, then those of \<open>b\<close>; the
  columns of \<open>a\<close>, then the columns only \<open>b\<close> has.
\<close>

definition concat_frames :: "frame \<Rightarrow> frame \<Rightarrow> frame" where
  "concat_frames a b =
     \<lparr>columns = columns a @ [c \<leftarrow> columns b. c \<notin> set (columns a)],
      rows = rows a @ rows b\<rparr>"

text \<open>\<open>_dedupe\<close>.\<close>

definition dedupe :: "frame \<Rightarrow> frame option \<Rightarrow> frame" where
  "dedupe df_new df_old =
     (case df_old of
        None \<Rightarrow> df_new
      | Some old \<Rightarrow>
          if is_empty old then df_new
          else drop_duplicates (concat_frames old df_new))"

text \<open>
  One source module of \<open>crawl_all_safe\<close>: \<open>None\<close> when the import failed, otherwise what
  \<open>fetch_recent()\<close> does, raise or return rows. The shape of a fetched row is not known, so
  the rows are of any type \<open>'raw\<close>.
\<close>

type_synonym 'raw fetcher = "(error + 'raw list) option"

text \<open>
  \<^verbatim>\<open>if m: try: rows.extend(m.fetch_recent()) except Exception: print(...)\<close>
\<close>

definition extend_safe :: "'raw list \<Rightarrow> 'raw fetcher \<Rightarrow> 'raw list" where
  "extend_safe rs m =
     (case m of
        None \<Rightarrow> rs
      | Some (Inl e) \<Rightarrow> rs
      | Some (Inr fetched) \<Rightarrow> rs @ fetched)"

definition crawl_rows :: "'raw fetcher \<Rightarrow> 'raw fetcher \<Rightarrow> 'raw fetcher \<Rightarrow> 'raw list" where
  "crawl_rows pincusco yimby cityrealty =
     extend_safe (extend_safe (extend_safe [] pincusco) yimby) cityrealty"

text \<open>
  \<open>crawl_all_safe\<close>. The parameter \<open>DataFrame\<close> is the constructor
  \<^verbatim>\<open>pd.DataFrame(rows, columns=[...])\<close>, which stands outside every \<open>try\<close> and may raise.
\<close>

definition crawl_all_safe ::
  "('raw list \<Rightarrow> error + row list) \<Rightarrow> 'raw fetcher \<Rightarrow> 'raw fetcher \<Rightarrow> 'raw fetcher
     \<Rightarrow> error + frame" where
  "crawl_all_safe DataFrame pincusco yimby cityrealty =
     (case DataFrame (crawl_rows pincusco yimby cityrealty) of
        Inl e \<Rightarrow> Inl e
      | Inr rs \<Rightarrow> Inr (ensure_cols (Some \<lparr>columns = canonical_columns, rows = rs\<rparr>)))"

text \<open>
  \<open>main\<close> of run.py, from the crawl to the file it writes. Each call of \<open>_fresh_filter\<close>
  reads the clock, hence two instants. The mode argument is only printed. The call of
  \<open>_save_excel\<close> raises when the writer rejects a cell of one of the two frames.
\<close>

definition main ::
  "('raw list \<Rightarrow> error + row list) \<Rightarrow> (string \<Rightarrow> time option) \<Rightarrow> (row list \<Rightarrow> row list)
     \<Rightarrow> (string \<Rightarrow> bool) \<Rightarrow> time \<Rightarrow> time
     \<Rightarrow> 'raw fetcher \<Rightarrow> 'raw fetcher \<Rightarrow> 'raw fetcher \<Rightarrow> store \<Rightarrow> error + xlsx" where
  "main DataFrame to_datetime read_rows illegal now_daily now_weekly pincusco yimby cityrealty path =
     (case crawl_all_safe DataFrame pincusco yimby cityrealty of
        Inl e \<Rightarrow> Inl e
      | Inr new_df \<Rightarrow>
          let daily_old = load_sheet read_rows path DAILY_SHEET;
              weekly_old = load_sheet read_rows path WEEKLY_SHEET;
              daily_df = fresh_filter to_datetime now_daily DAILY_WINDOW (Some new_df);
              weekly_df = fresh_filter to_datetime now_weekly WEEKLY_WINDOW (Some new_df);
              daily_all = dedupe daily_df daily_old;
              weekly_all = dedupe weekly_df weekly_old
          in if to_excel_raises illegal daily_all \<or> to_excel_raises illegal weekly_all
             then Inl (Exception ''IllegalCharacterError'')
             else Inr (save_excel (Some daily_all) (Some weekly_all)))"

text \<open>
  The \<^verbatim>\<open>if __name__ == "__main__"\<close> block: the file at \<open>OUTPUT_XLSX\<close> after the run.
  When \<open>main\<close> raises, also in its own \<open>_save_excel\<close>, the handler writes two empty
  frames, which have no cell the writer could reject.
\<close>

definition run ::
  "('raw list \<Rightarrow> error + row list) \<Rightarrow> (string \<Rightarrow> time option) \<Rightarrow> (row list \<Rightarrow> row list)
     \<Rightarrow> (string \<Rightarrow> bool) \<Rightarrow> time \<Rightarrow> time
     \<Rightarrow> 'raw fetcher \<Rightarrow> 'raw fetcher \<Rightarrow> 'raw fetcher \<Rightarrow> store \<Rightarrow> xlsx" where
  "run DataFrame to_datetime read_rows illegal now_daily now_weekly pincusco yimby cityrealty path =
     (case main DataFrame to_datetime read_rows illegal now_daily now_weekly
             pincusco yimby cityrealty path of
        Inr written \<Rightarrow> written
      | Inl e \<Rightarrow> save_excel (Some empty_frame) (Some empty_frame))"

text \<open>
  The shape every written artifact is to have: the two sheets, in this order, each with
  the six canonical columns.
\<close>

definition well_formed :: "xlsx \<Rightarrow> bool" where
  "well_formed f =
     (case f of
        Unreadable \<Rightarrow> False
      | Workbook sheets \<Rightarrow>
          map fst sheets = [DAILY_SHEET, WEEKLY_SHEET]
          \<and> map (\<lambda>s. columns (snd s)) sheets = [canonical_columns, canonical_columns])"

text \<open>
  What a run needs of the file it finds: a history sheet it can load is empty or has the
  canonical columns (reading keeps the header, and an empty sheet empty). No file, an
  unreadable file, a workbook without the two sheets and every well-formed artifact are of
  this kind.
\<close>

definition sheet_ok :: "store \<Rightarrow> string \<Rightarrow> bool" where
  "sheet_ok path sheet =
     (case stored_sheet path sheet of
        None \<Rightarrow> True
      | Some old \<Rightarrow> is_empty old \<or> columns old = canonical_columns)"

definition history_ok :: "store \<Rightarrow> bool" where
  "history_ok path = (sheet_ok path DAILY_SHEET \<and> sheet_ok path WEEKLY_SHEET)"

section \<open>src/utils.py and src/scraper.py\<close>

text \<open>
  Python's \<^verbatim>\<open>w in t\<close> on strings is \<^const>\<open>sublist\<close>. \<open>str.lower()\<close> is the library's and
  maps every cased character of the text: it is the parameter \<open>lower\<close> of the functions
  below.
\<close>

text \<open>\<^verbatim>\<open>x or ""\<close>\<close>

definition or_empty :: "string option \<Rightarrow> string" where
  "or_empty x = (case x of None \<Rightarrow> [] | Some s \<Rightarrow> s)"

definition contains_keywords ::
  "(string \<Rightarrow> string) \<Rightarrow> string option \<Rightarrow> string list \<Rightarrow> bool" where
  "contains_keywords lower text any_words =
     (let t = lower (or_empty text) in list_ex (\<lambda>w. sublist (lower w) t) any_words)"

definition contains_borough ::
  "(string \<Rightarrow> string) \<Rightarrow> string option \<Rightarrow> string list \<Rightarrow> bool" where
  "contains_borough lower text boroughs =
     (let t = lower (or_empty text) in list_ex (\<lambda>b. sublist (lower b) t) boroughs)"

text \<open>
  A datetime as \<open>parse_date\<close> returns it: naive, or aware of its time zone.
\<close>

datatype datetime = Naive time | Aware time

text \<open>
  The dictionary of one fetched item; \<^verbatim>\<open>it["title"]\<close> is \<open>it_title it\<close>. The link
  \<^verbatim>\<open>it["url"]\<close> is \<open>None\<close> for an RSS entry without a link (\<open>parse_rss\<close> takes
  \<^verbatim>\<open>e.get("link")\<close> as it is; \<open>parse_html_list\<close> skips a block without one).
\<close>

record item =
  it_title :: "string option"
  it_url :: "string option"
  it_summary :: "string option"
  it_published :: "datetime option"
  it_raw_date :: "string option"
  it_source :: "string option"
  it_feed_name :: "string option"
  it_content_preview :: "string option"

definition QUEENS_FEED_HINTS :: "string list" where
  "QUEENS_FEED_HINTS =
     [''long island city'', ''lic'', ''astoria'', ''flushing'', ''jamaica'',
      ''ridgewood'', ''sunnyside'', ''woodside'', ''rego park'', ''forest hills'',
      ''kew gardens'', ''bayside'', ''whitestone'', ''college point'',
      ''maspeth'', ''elmhurst'', ''jackson heights'', ''corona'',
      ''rockaway'', ''far rockaway'', ''howard beach'', ''middle village'', ''ozone park'']"

text \<open>\<^verbatim>\<open>" ".join([title or "", summary or "", content_preview or ""]).lower()\<close>\<close>

definition text_blob :: "(string \<Rightarrow> string) \<Rightarrow> item \<Rightarrow> string" where
  "text_blob lower it =
     lower (or_empty (it_title it) @ '' '' @ or_empty (it_summary it) @ '' ''
            @ or_empty (it_content_preview it))"

definition is_yimby_queens_feed :: "(string \<Rightarrow> string) \<Rightarrow> item \<Rightarrow> bool" where
  "is_yimby_queens_feed lower it =
     (let source = lower (or_empty (it_source it));
          feed_name = lower (or_empty (it_feed_name it))
      in source = ''yimby'' \<and> list_ex (\<lambda>h. sublist h feed_name) QUEENS_FEED_HINTS)"

text \<open>
  \<open>filter_items\<close>; the keyword lists \<open>BOROUGHS\<close> and \<open>MUST_ANY\<close> come from keywords.yaml.
\<close>

fun filter_items ::
  "(string \<Rightarrow> string) \<Rightarrow> string list \<Rightarrow> string list \<Rightarrow> item list \<Rightarrow> item list" where
  "filter_items lower BOROUGHS MUST_ANY [] = []"
| "filter_items lower BOROUGHS MUST_ANY (it # items) =
     (let has_borough = contains_borough lower (Some (text_blob lower it)) BOROUGHS;
          has_keyword = contains_keywords lower (Some (text_blob lower it)) MUST_ANY
      in if is_yimby_queens_feed lower it
         then (if has_keyword then it # filter_items lower BOROUGHS MUST_ANY items
               else filter_items lower BOROUGHS MUST_ANY items)
         else (if has_borough \<and> has_keyword then it # filter_items lower BOROUGHS MUST_ANY items
               else filter_items lower BOROUGHS MUST_ANY items))"

text \<open>
  \<open>enrich_article\<close>: the parameter \<open>fetch_text\<close> is the page fetch and the extraction of
  its first paragraphs, which may raise; every exception is caught.
\<close>

definition enrich_article :: "(item \<Rightarrow> error + string) \<Rightarrow> item \<Rightarrow> item" where
  "enrich_article fetch_text article =
     (case fetch_text article of
        Inr extra \<Rightarrow> article\<lparr>it_content_preview := Some (take 1200 extra)\<rparr>
      | Inl e \<Rightarrow> article\<lparr>it_content_preview := None\<rparr>)"

text \<open>
  A configured source with what its fetch (\<open>parse_rss\<close>, \<open>parse_html_list\<close>) does in this
  run: raise, or return items.
\<close>

record src =
  src_name :: string
  src_source :: string
  src_fetch :: "error + item list"

text \<open>
  The body of the loop over the items of one source; the state is the seen set and the
  kept rows.
\<close>

definition process_item ::
  "(string \<Rightarrow> string) \<Rightarrow> string list \<Rightarrow> string list \<Rightarrow> (item \<Rightarrow> error + string) \<Rightarrow> src
     \<Rightarrow> string option set \<times> item list \<Rightarrow> item \<Rightarrow> string option set \<times> item list" where
  "process_item lower BOROUGHS MUST_ANY fetch_text s st it0 =
     (let seen = fst st; kept = snd st;
          it = it0\<lparr>it_source := Some (src_source s), it_feed_name := Some (src_name s)\<rparr>
      in if it_url it \<in> seen then (seen, kept)
         else
           let it = enrich_article fetch_text it in
           if filter_items lower BOROUGHS MUST_ANY [it] \<noteq> []
           then (insert (it_url it) seen, kept @ [it])
           else (seen, kept))"

text \<open>
  One round of the loop over the sources: an exception of the fetch is caught, the source
  adds nothing, and the loop goes on.
\<close>

definition process_source ::
  "(string \<Rightarrow> string) \<Rightarrow> string list \<Rightarrow> string list \<Rightarrow> (item \<Rightarrow> error + string)
     \<Rightarrow> string option set \<times> item list \<Rightarrow> src \<Rightarrow> string option set \<times> item list" where
  "process_source lower BOROUGHS MUST_ANY fetch_text st s =
     (case src_fetch s of
        Inl e \<Rightarrow> st
      | Inr items \<Rightarrow>
          foldl (process_item lower BOROUGHS MUST_ANY fetch_text s) st (take 80 items))"

text \<open>The two loops of \<open>main\<close>, over the RSS sources and then over the HTML sources.\<close>

definition ingest ::
  "(string \<Rightarrow> string) \<Rightarrow> string list \<Rightarrow> string list \<Rightarrow> (item \<Rightarrow> error + string)
     \<Rightarrow> src list \<Rightarrow> src list \<Rightarrow> string option set \<Rightarrow> string option set \<times> item list" where
  "ingest lower BOROUGHS MUST_ANY fetch_text rss_sources html_sources seen =
     foldl (process_source lower BOROUGHS MUST_ANY fetch_text)
       (foldl (process_source lower BOROUGHS MUST_ANY fetch_text) (seen, []) rss_sources)
       html_sources"

text \<open>
  The seen-set file, a CSV of one column. \<open>load_seen\<close> takes the first cell of every
  non-empty line, a string.
\<close>

definition load_seen :: "string list list option \<Rightarrow> string option set" where
  "load_seen f =
     (case f of None \<Rightarrow> {} | Some lines \<Rightarrow> set [Some (hd l). l \<leftarrow> lines, l \<noteq> []])"

text \<open>
  \<open>save_seen\<close>, after \<^verbatim>\<open>open(SEEN_PATH, "w")\<close> has emptied the file: \<open>sorted(seen)\<close>
  compares the links, and the comparison of \<open>None\<close> with a string raises; \<open>None\<close> alone is
  written as an empty cell; strings are written in their order.
\<close>

definition save_seen :: "string option set \<Rightarrow> error + string list list" where
  "save_seen seen =
     (if None \<in> seen \<and> Option.these seen \<noteq> {}
      then Inl (Exception ''TypeError: < not supported between NoneType and str'')
      else if None \<in> seen then Inr [[[]]]
      else Inr [[u]. u \<leftarrow> sorted_list_of_set (Option.these seen)])"

text \<open>
  \<^verbatim>\<open>pd.to_datetime(d) >= now - pd.Timedelta(days=7)\<close> with a naive \<open>now\<close>: the comparison
  with an aware time stamp raises.
\<close>

definition timestamp_ge :: "datetime \<Rightarrow> time \<Rightarrow> error + bool" where
  "timestamp_ge d cutoff =
     (case d of
        Naive t \<Rightarrow> Inr (cutoff \<le> t)
      | Aware t \<Rightarrow> Inl (Exception ''Cannot compare tz-naive and tz-aware timestamps''))"

text \<open>The local function \<open>fresh\<close> of scraper.py's \<open>main\<close>.\<close>

definition fresh :: "time \<Rightarrow> datetime option \<Rightarrow> bool" where
  "fresh now d =
     (case d of
        None \<Rightarrow> True
      | Some v \<Rightarrow> (case timestamp_ge v (now - days 7) of Inr b \<Rightarrow> b | Inl e \<Rightarrow> True))"

text \<open>
  \<^verbatim>\<open>if "published" in df.columns and not df.empty: df = df[df["published"].apply(fresh)]\<close>
\<close>

definition fresh_rows :: "time \<Rightarrow> item list \<Rightarrow> item list" where
  "fresh_rows now kept =
     (if kept \<noteq> [] then [it \<leftarrow> kept. fresh now (it_published it)] else kept)"

text \<open>
  What a run of scraper.py leaves: the sheet it wrote, if it came to write one, the
  seen-set file after the run, and the exception it ended with, if any.
\<close>

record 'sheet outcome =
  excel :: "'sheet option"
  seen_file :: "string list list option"
  raised :: "error option"

text \<open>
  \<open>main\<close> of scraper.py. The parameter \<open>to_excel\<close> is the sorting, renaming and writing of
  the frame, which may raise; \<open>save_seen\<close> is called after it, outside every \<open>try\<close>. When
  \<open>to_excel\<close> raises the seen-set file stays as it was found; when \<open>save_seen\<close> raises the
  file has been emptied.
\<close>

definition scraper_main ::
  "(string \<Rightarrow> string) \<Rightarrow> string list \<Rightarrow> string list \<Rightarrow> (item \<Rightarrow> error + string)
     \<Rightarrow> (item list \<Rightarrow> error + 'sheet) \<Rightarrow> time \<Rightarrow> src list \<Rightarrow> src list
     \<Rightarrow> string list list option \<Rightarrow> 'sheet outcome" where
  "scraper_main lower BOROUGHS MUST_ANY fetch_text to_excel now rss_sources html_sources seen_path =
     (let seen = load_seen seen_path;
          st = ingest lower BOROUGHS MUST_ANY fetch_text rss_sources html_sources seen;
          df = fresh_rows now (snd st)
      in case to_excel df of
           Inl e \<Rightarrow> \<lparr>excel = None, seen_file = seen_path, raised = Some e\<rparr>
         | Inr sheet \<Rightarrow>
             (case save_seen (fst st) of
                Inl e \<Rightarrow> \<lparr>excel = Some sheet, seen_file = Some [], raised = Some e\<rparr>
              | Inr written \<Rightarrow>
                  \<lparr>excel = Some sheet, seen_file = Some written, raised = None\<rparr>))"

text \<open>
  The invariant of the two ingestion loops, for a run that loaded the set \<open>seen0\<close>: the
  seen set is \<open>seen0\<close> and the links of the kept rows, and every kept row passes the
  filter.
\<close>

definition ingest_inv ::
  "(string \<Rightarrow> string) \<Rightarrow> string list \<Rightarrow> string list \<Rightarrow> string option set
     \<Rightarrow> string option set \<times> item list \<Rightarrow> bool" where
  "ingest_inv lower BOROUGHS MUST_ANY seen0 st =
     (fst st = seen0 \<union> it_url ` set (snd st)
      \<and> list_all (\<lambda>it. filter_items lower BOROUGHS MUST_ANY [it] = [it]) (snd st))"

section \<open>Concrete records and items\<close>

text \<open>Three records with the same title and link, sighted at three different dates.\<close>

definition ex_H0 :: row where
  "ex_H0 = \<lparr>date = Some ''T0'', title = Some ''A'', neighborhood = None, action = None,
            source = None, link = Some ''L''\<rparr>"

definition ex_H :: row where
  "ex_H = \<lparr>date = Some ''T1'', title = Some ''A'', neighborhood = None, action = None,
           source = None, link = Some ''L''\<rparr>"

definition ex_N :: row where
  "ex_N = \<lparr>date = Some ''T2'', title = Some ''A'', neighborhood = None, action = None,
           source = None, link = Some ''L''\<rparr>"

text \<open>A record without a date, and a parser that knows the three dates above.\<close>

definition ex_undated :: row where
  "ex_undated = \<lparr>date = None, title = Some ''B'', neighborhood = None, action = None,
                 source = None, link = Some ''M''\<rparr>"

definition ex_to_datetime :: "string \<Rightarrow> time option" where
  "ex_to_datetime = map_of [(''T0'', hours 51), (''T1'', hours 53), (''T2'', hours 99)]"

text \<open>
  \<open>str.lower()\<close> on a text of ASCII characters, and a reading of stored cells that takes
  the empty text, \<open>NA\<close> and \<open>null\<close> for \<open>NaN\<close>.
\<close>

definition ascii_lower_char :: "char \<Rightarrow> char" where
  "ascii_lower_char c =
     (case map_of (zip ''ABCDEFGHIJKLMNOPQRSTUVWXYZ'' ''abcdefghijklmnopqrstuvwxyz'') c of
        None \<Rightarrow> c
      | Some d \<Rightarrow> d)"

definition ascii_lower :: "string \<Rightarrow> string" where
  "ascii_lower s = map ascii_lower_char s"

definition ex_read_cell :: "cell \<Rightarrow> cell" where
  "ex_read_cell c =
     (case c of None \<Rightarrow> None | Some s \<Rightarrow> if s \<in> {[], ''NA'', ''null''} then None else Some s)"

definition ex_read_rows :: "row list \<Rightarrow> row list" where
  "ex_read_rows rs =
     map (\<lambda>r. \<lparr>date = ex_read_cell (date r), title = ex_read_cell (title r),
                  neighborhood = ex_read_cell (neighborhood r), action = ex_read_cell (action r),
                  source = ex_read_cell (source r), link = ex_read_cell (link r)\<rparr>) rs"

text \<open>A keyword configuration, an item of a relaxed feed, and three sources.\<close>

definition ex_BOROUGHS :: "string list" where
  "ex_BOROUGHS = [''Queens'']"

definition ex_MUST_ANY :: "string list" where
  "ex_MUST_ANY = [''permit'']"

definition ex_item :: item where
  "ex_item = \<lparr>it_title = Some ''New tower: Permit filed'', it_url = Some ''https://example.org/a'',
              it_summary = Some ''Plans for 12 floors'', it_published = None, it_raw_date = None,
              it_source = Some ''yimby'', it_feed_name = Some ''YIMBY Astoria'',
              it_content_preview = None\<rparr>"

definition ex_fetch_text :: "item \<Rightarrow> error + string" where
  "ex_fetch_text a = (if it_url a = Some ''https://example.org/a'' then Inr ''Filed on Monday.''
                      else Inl (Exception ''404''))"


definition ex_src_good :: src where
  "ex_src_good = \<lparr>src_name = ''YIMBY Astoria'', src_source = ''yimby'',
                  src_fetch = Inr [ex_item]\<rparr>"

definition ex_other :: item where
  "ex_other = ex_item\<lparr>it_url := Some ''https://example.org/b''\<rparr>"

definition ex_src_other :: src where
  "ex_src_other = \<lparr>src_name = ''CityRealty'', src_source = ''cityrealty'',
                   src_fetch = Inr [ex_other]\<rparr>"

text \<open>What the loop makes of \<open>ex_item\<close> and of \<open>ex_other\<close>.\<close>

definition ex_kept :: item where
  "ex_kept = ex_item\<lparr>it_content_preview := Some ''Filed on Monday.''\<rparr>"

definition ex_rejected :: item where
  "ex_rejected = ex_item\<lparr>it_url := Some ''https://example.org/b'', it_source := Some ''cityrealty'',
                          it_feed_name := Some ''CityRealty''\<rparr>"

text \<open>An RSS entry without a link, and what the loop makes of it.\<close>

definition ex_linkless :: item where
  "ex_linkless = ex_item\<lparr>it_url := None\<rparr>"

definition ex_src_linkless :: src where
  "ex_src_linkless = \<lparr>src_name = ''YIMBY Astoria'', src_source = ''yimby'',
                      src_fetch = Inr [ex_linkless]\<rparr>"

section \<open>The dedup merger\<close>

lemma keep_first_keys: "key ` set (keep_first S rs) = key ` set rs - S"
  by (induction rs arbitrary: S) auto

lemma keep_first_subset: "set (keep_first S rs) \<subseteq> set rs"
  by (induction rs arbitrary: S) auto

lemma keep_first_distinct: "distinct (map key (keep_first S rs))"
proof (induction rs arbitrary: S)
  case Nil
  then show ?case by simp
next
  case (Cons r rs)
  have "key r \<notin> key ` set (keep_first (insert (key r) S) rs)"
    by (simp add: keep_first_keys)
  with Cons show ?case by auto
qed

lemma keep_first_none: "k \<in> S \<Longrightarrow> [r \<leftarrow> keep_first S rs. key r = k] = []"
proof -
  assume "k \<in> S"
  then have "k \<notin> key ` set (keep_first S rs)" by (simp add: keep_first_keys)
  then show ?thesis by (auto simp: filter_empty_conv)
qed

text \<open>
  The first row of \<open>xs\<close> with the pair \<open>k\<close> is the only row with that pair that survives.
\<close>

lemma keep_first_find:
  "find (\<lambda>r. key r = k) xs = Some H \<Longrightarrow> k \<notin> S
     \<Longrightarrow> [r \<leftarrow> keep_first S (xs @ ys). key r = k] = [H]"
proof (induction xs arbitrary: S)
  case Nil
  then show ?case by simp
next
  case (Cons x xs)
  show ?case
  proof (cases "key x = k")
    case True
    with Cons.prems have "x = H" by simp
    with True Cons.prems show ?thesis by (simp add: keep_first_none)
  next
    case False
    with Cons.prems have f: "find (\<lambda>r. key r = k) xs = Some H" by simp
    from False Cons.prems have "k \<notin> insert (key x) S" by auto
    with Cons.IH [OF f] Cons.IH [OF f \<open>k \<notin> S\<close>] False show ?thesis by simp
  qed
qed

lemma dedupe_nonempty:
  "\<not> is_empty old \<Longrightarrow> rows (dedupe new (Some old)) = keep_first {} (rows old @ rows new)"
  by (simp add: dedupe_def drop_duplicates_def concat_frames_def)

text \<open>
  With a history that is not empty the merge has no two records with the same pair: the
  whole concatenation goes through \<open>drop_duplicates\<close>, the new records included.
\<close>

lemma dedupe_distinct_nonempty:
  "\<not> is_empty old \<Longrightarrow> distinct (map key (rows (dedupe new (Some old))))"
  by (simp add: dedupe_nonempty keep_first_distinct)

text \<open>
  C1. The claim: whatever the new records and the history, also an empty or absent history,
  no two records of the merge have the same (title, link). The code returns the new
  records untouched when the history is absent or empty, so two new records with the same
  pair both stay: here the merge of \<open>[ex_H, ex_N]\<close> with no history, and with an empty
  one, is \<open>[ex_H, ex_N]\<close> again, two different records with one pair.
\<close>

theorem dedupe_without_history_keeps_duplicates:
  "dedupe \<lparr>columns = canonical_columns, rows = [ex_H, ex_N]\<rparr> None
     = \<lparr>columns = canonical_columns, rows = [ex_H, ex_N]\<rparr>
   \<and> dedupe \<lparr>columns = canonical_columns, rows = [ex_H, ex_N]\<rparr> (Some empty_frame)
     = \<lparr>columns = canonical_columns, rows = [ex_H, ex_N]\<rparr>
   \<and> key ex_H = key ex_N \<and> ex_H \<noteq> ex_N"
  by (simp add: dedupe_def is_empty_def empty_frame_def key_def ex_H_def ex_N_def)

text \<open>
  C2, as stated: a history that contains \<open>H\<close> and new records that contain \<open>N\<close> with the
  title and link of \<open>H\<close> merge to a collection with \<open>H\<close> and without \<open>N\<close>. It fails when the
  history holds an earlier record with that pair: the merge of the history
  \<open>[ex_H0, ex_H]\<close> with the new records \<open>[ex_N]\<close> keeps \<open>ex_H0\<close> and drops \<open>ex_H\<close>.
\<close>

theorem later_history_record_is_dropped:
  "ex_H \<in> set (rows \<lparr>columns = canonical_columns, rows = [ex_H0, ex_H]\<rparr>)
   \<and> title ex_H = Some ''A'' \<and> link ex_H = Some ''L''
   \<and> ex_N \<in> set (rows \<lparr>columns = canonical_columns, rows = [ex_N]\<rparr>)
   \<and> title ex_N = Some ''A'' \<and> link ex_N = Some ''L''
   \<and> ex_H \<notin> set (rows (dedupe \<lparr>columns = canonical_columns, rows = [ex_N]\<rparr>
                                (Some \<lparr>columns = canonical_columns, rows = [ex_H0, ex_H]\<rparr>)))"
  by (simp add: dedupe_def is_empty_def drop_duplicates_def concat_frames_def key_def
        canonical_columns_def ex_H0_def ex_H_def ex_N_def)

text \<open>
  C2, amended: when the history is not empty and \<open>H\<close> is the first record of the history
  with its title and link, the merge with new records that contain a different record \<open>N\<close>
  with the same title and link contains \<open>H\<close> and not \<open>N\<close>; \<open>H\<close> is the only record of the
  merge with that pair.
\<close>

theorem first_history_record_wins:
  assumes "\<not> is_empty df_old"
    and "find (\<lambda>r. key r = key H) (rows df_old) = Some H"
    and "N \<in> set (rows df_new)" and "key N = key H" and "N \<noteq> H"
  shows "H \<in> set (rows (dedupe df_new (Some df_old)))
         \<and> N \<notin> set (rows (dedupe df_new (Some df_old)))
         \<and> [r \<leftarrow> rows (dedupe df_new (Some df_old)). key r = key H] = [H]"
proof -
  let ?out = "rows (dedupe df_new (Some df_old))"
  have eq: "[r \<leftarrow> ?out. key r = key H] = [H]"
    using assms(1,2) by (simp add: dedupe_nonempty keep_first_find)
  then have "set [r \<leftarrow> ?out. key r = key H] = {H}" by simp
  then have "H \<in> set ?out" and "\<And>r. r \<in> set ?out \<Longrightarrow> key r = key H \<Longrightarrow> r = H"
    by auto
  with assms(4,5) eq show ?thesis by blast
qed

theorem first_history_record_wins_witness:
  "ex_H \<in> set (rows (dedupe \<lparr>columns = canonical_columns, rows = [ex_N]\<rparr>
                        (Some \<lparr>columns = canonical_columns, rows = [ex_H]\<rparr>)))
   \<and> ex_N \<notin> set (rows (dedupe \<lparr>columns = canonical_columns, rows = [ex_N]\<rparr>
                        (Some \<lparr>columns = canonical_columns, rows = [ex_H]\<rparr>)))"
  using first_history_record_wins
    [of "\<lparr>columns = canonical_columns, rows = [ex_H]\<rparr>" ex_H ex_N
        "\<lparr>columns = canonical_columns, rows = [ex_N]\<rparr>"]
  by (simp add: is_empty_def canonical_columns_def key_def ex_H_def ex_N_def)

text \<open>
  C7. Merging a collection with itself gives a collection with as many distinct
  (title, link) pairs as the collection has.
\<close>

theorem dedupe_self_same_distinct_count:
  "card (key ` set (rows (dedupe C (Some C)))) = card (key ` set (rows C))"
proof (cases "is_empty C")
  case True
  then show ?thesis by (simp add: dedupe_def)
next
  case False
  then have "key ` set (rows (dedupe C (Some C))) = key ` set (rows C)"
    by (simp add: dedupe_nonempty keep_first_keys image_Un)
  then show ?thesis by simp
qed

theorem dedupe_self_same_distinct_count_witness:
  "card (key ` set (rows (dedupe \<lparr>columns = canonical_columns, rows = [ex_H, ex_N]\<rparr>
                         (Some \<lparr>columns = canonical_columns, rows = [ex_H, ex_N]\<rparr>)))) = 1"
  using dedupe_self_same_distinct_count [of "\<lparr>columns = canonical_columns, rows = [ex_H, ex_N]\<rparr>"]
  by (simp add: key_def ex_H_def ex_N_def)

section \<open>The window filters\<close>

lemma fresh_filter_rows:
  "\<not> is_empty df \<Longrightarrow>
     rows (fresh_filter to_datetime now w (Some df))
       = [r \<leftarrow> rows df. (case date_parsed to_datetime r of None \<Rightarrow> False | Some t \<Rightarrow> now - w \<le> t)]"
  by (simp add: fresh_filter_def)

lemma fresh_filter_subset:
  "r \<in> set (rows (fresh_filter to_datetime now w df))
     \<Longrightarrow> (\<exists>f t. df = Some f \<and> r \<in> set (rows f) \<and> date_parsed to_datetime r = Some t \<and> now - w \<le> t)"
  by (cases df) (auto simp: fresh_filter_def empty_frame_def split: if_splits option.splits)

text \<open>
  C3. With the window of 48 hours evaluated at the instant \<open>T\<close>, the window filter
  keeps every record whose parsed date is \<open>T\<close> minus 47 hours and drops every record
  whose parsed date is \<open>T\<close> minus 49 hours. The frame is any frame with a header and with
  the record among its rows (a frame without a header counts as empty).
\<close>

theorem window_48h:
  assumes "columns df \<noteq> []" and "r \<in> set (rows df)"
  shows "(date_parsed to_datetime r = Some (T - hours 47)
            \<longrightarrow> r \<in> set (rows (fresh_filter to_datetime T DAILY_WINDOW (Some df))))
       \<and> (date_parsed to_datetime r = Some (T - hours 49)
            \<longrightarrow> r \<notin> set (rows (fresh_filter to_datetime T DAILY_WINDOW (Some df))))"
proof -
  from assms have ne: "\<not> is_empty df" by (auto simp: is_empty_def)
  have w: "DAILY_WINDOW = hours 48" by (simp add: DAILY_WINDOW_def days_def)
  have a: "T - hours 48 \<le> T - hours 47" and b: "\<not> T - hours 48 \<le> T - hours 49"
    by (simp_all add: hours_def)
  show ?thesis using assms(2) a b by (simp add: fresh_filter_rows [OF ne] w)
qed

theorem window_48h_witness:
  "ex_H \<in> set (rows (fresh_filter ex_to_datetime (hours 100) DAILY_WINDOW
                        (Some \<lparr>columns = canonical_columns, rows = [ex_H0, ex_H]\<rparr>)))
   \<and> ex_H0 \<notin> set (rows (fresh_filter ex_to_datetime (hours 100) DAILY_WINDOW
                        (Some \<lparr>columns = canonical_columns, rows = [ex_H0, ex_H]\<rparr>)))"
  using window_48h [of "\<lparr>columns = canonical_columns, rows = [ex_H0, ex_H]\<rparr>" ex_H
                       ex_to_datetime "hours 100"]
        window_48h [of "\<lparr>columns = canonical_columns, rows = [ex_H0, ex_H]\<rparr>" ex_H0
                       ex_to_datetime "hours 100"]
  by (simp add: canonical_columns_def date_parsed_def ex_to_datetime_def ex_H_def ex_H0_def
        hours_def)

text \<open>
  C4, as stated: every record with an absent or unparsable date is excluded from windowed
  output, at every call site alike. It fails in scraper.py, whose \<open>fresh\<close> answers \<open>True\<close>
  for an absent date: the item \<open>ex_item\<close> has no published date and stays in the
  windowed rows, while run.py's filter drops the undated record \<open>ex_undated\<close>.
\<close>

theorem scraper_keeps_undated:
  "it_published ex_item = None
   \<and> ex_item \<in> set (fresh_rows (days 100) [ex_item])
   \<and> date_parsed ex_to_datetime ex_undated = None
   \<and> ex_undated \<notin> set (rows (fresh_filter ex_to_datetime (days 100) WEEKLY_WINDOW
                             (Some \<lparr>columns = canonical_columns, rows = [ex_undated]\<rparr>)))"
  by (simp add: fresh_rows_def fresh_def ex_item_def fresh_filter_def is_empty_def
        canonical_columns_def date_parsed_def ex_undated_def)

text \<open>
  C4, amended: run.py's window filter excludes every record whose date is absent or
  unparsable, for every window, instant and frame; scraper.py's window filter keeps every
  kept row whose published date is absent. The two call sites do not agree.
\<close>

theorem absent_date_policies:
  "(date_parsed to_datetime r = None
      \<longrightarrow> r \<notin> set (rows (fresh_filter to_datetime now window_td df)))
   \<and> (it \<in> set kept \<and> it_published it = None \<longrightarrow> it \<in> set (fresh_rows now' kept))"
proof -
  have "date_parsed to_datetime r = None
          \<Longrightarrow> r \<notin> set (rows (fresh_filter to_datetime now window_td df))"
    using fresh_filter_subset [of r to_datetime now window_td df] by auto
  moreover have "it \<in> set kept \<Longrightarrow> it_published it = None \<Longrightarrow> it \<in> set (fresh_rows now' kept)"
    by (auto simp: fresh_rows_def fresh_def)
  ultimately show ?thesis by blast
qed

theorem absent_date_policies_witness:
  "ex_undated \<notin> set (rows (fresh_filter ex_to_datetime (days 100) DAILY_WINDOW
                             (Some \<lparr>columns = canonical_columns, rows = [ex_undated, ex_H]\<rparr>)))
   \<and> ex_item \<in> set (fresh_rows (days 100) [ex_item])"
  using absent_date_policies [of ex_to_datetime ex_undated "days 100" DAILY_WINDOW
          "Some \<lparr>columns = canonical_columns, rows = [ex_undated, ex_H]\<rparr>" ex_item "[ex_item]" "days 100"]
  by (simp add: date_parsed_def ex_undated_def ex_item_def)

section \<open>The relevance filter\<close>

lemma filter_items_single:
  "filter_items lower B M [it] =
     (if (if is_yimby_queens_feed lower it then contains_keywords lower (Some (text_blob lower it)) M
          else contains_borough lower (Some (text_blob lower it)) B
               \<and> contains_keywords lower (Some (text_blob lower it)) M)
      then [it] else [])"
  by (simp add: Let_def)

lemma text_blob_source [simp]: "text_blob lower (it\<lparr>it_source := s\<rparr>) = text_blob lower it"
  by (simp add: text_blob_def)

lemma text_blob_feed_name [simp]: "text_blob lower (it\<lparr>it_feed_name := f\<rparr>) = text_blob lower it"
  by (simp add: text_blob_def)

text \<open>
  C5. A record whose source is \<open>yimby\<close> and whose feed name contains \<open>astoria\<close> (both
  compared in lower case, as the code compares them), and whose text blob contains a
  topic keyword and no borough keyword, is kept by the relevance filter; the same record
  with a source that is not \<open>yimby\<close>, or with a feed name that contains no hint, is dropped.
  This holds whatever \<open>str.lower()\<close> does.
\<close>

theorem relaxation_rule:
  assumes "lower (or_empty (it_source it)) = ''yimby''"
    and "sublist ''astoria'' (lower (or_empty (it_feed_name it)))"
    and "contains_keywords lower (Some (text_blob lower it)) MUST_ANY"
    and "\<not> contains_borough lower (Some (text_blob lower it)) BOROUGHS"
  shows "filter_items lower BOROUGHS MUST_ANY [it] = [it]
       \<and> (lower (or_empty s) \<noteq> ''yimby''
            \<longrightarrow> filter_items lower BOROUGHS MUST_ANY [it\<lparr>it_source := s\<rparr>] = [])
       \<and> (\<not> list_ex (\<lambda>h. sublist h (lower (or_empty f))) QUEENS_FEED_HINTS
            \<longrightarrow> filter_items lower BOROUGHS MUST_ANY [it\<lparr>it_feed_name := f\<rparr>] = [])"
proof -
  have "''astoria'' \<in> set QUEENS_FEED_HINTS" by (simp add: QUEENS_FEED_HINTS_def)
  with assms(2) have "list_ex (\<lambda>h. sublist h (lower (or_empty (it_feed_name it)))) QUEENS_FEED_HINTS"
    unfolding list_ex_iff by blast
  with assms(1) have y: "is_yimby_queens_feed lower it" by (simp add: is_yimby_queens_feed_def)
  have k: "filter_items lower BOROUGHS MUST_ANY [it] = [it]"
    using y assms(3) by (simp add: filter_items_single)
  have s: "filter_items lower BOROUGHS MUST_ANY [it\<lparr>it_source := s\<rparr>] = []"
    if "lower (or_empty s) \<noteq> ''yimby''"
    using that assms(4) by (simp add: filter_items_single is_yimby_queens_feed_def)
  have f: "filter_items lower BOROUGHS MUST_ANY [it\<lparr>it_feed_name := f\<rparr>] = []"
    if "\<not> list_ex (\<lambda>h. sublist h (lower (or_empty f))) QUEENS_FEED_HINTS"
    using that assms(4) by (simp add: filter_items_single is_yimby_queens_feed_def)
  from k s f show ?thesis by blast
qed

lemma ex_blob: "text_blob ascii_lower ex_item = ''new tower: permit filed plans for 12 floors ''"
  by (simp add: text_blob_def ex_item_def or_empty_def ascii_lower_def ascii_lower_char_def)

theorem relaxation_rule_witness:
  "filter_items ascii_lower ex_BOROUGHS ex_MUST_ANY [ex_item] = [ex_item]
   \<and> filter_items ascii_lower ex_BOROUGHS ex_MUST_ANY [ex_item\<lparr>it_source := Some ''pincusco''\<rparr>] = []
   \<and> filter_items ascii_lower ex_BOROUGHS ex_MUST_ANY
        [ex_item\<lparr>it_feed_name := Some ''YIMBY Manhattan''\<rparr>] = []"
proof -
  have 1: "ascii_lower (or_empty (it_source ex_item)) = ''yimby''"
    by (simp add: ex_item_def or_empty_def ascii_lower_def ascii_lower_char_def)
  have 2: "sublist ''astoria'' (ascii_lower (or_empty (it_feed_name ex_item)))"
    by (simp add: ex_item_def or_empty_def ascii_lower_def ascii_lower_char_def sublist_code(3))
  have 3: "contains_keywords ascii_lower (Some (text_blob ascii_lower ex_item)) ex_MUST_ANY"
    by (simp add: ex_blob contains_keywords_def ex_MUST_ANY_def or_empty_def ascii_lower_def
          ascii_lower_char_def sublist_code(3))
  have 4: "\<not> contains_borough ascii_lower (Some (text_blob ascii_lower ex_item)) ex_BOROUGHS"
    by (simp add: ex_blob contains_borough_def ex_BOROUGHS_def or_empty_def ascii_lower_def
          ascii_lower_char_def sublist_code(3))
  have 5: "ascii_lower (or_empty (Some ''pincusco'')) \<noteq> ''yimby''"
    by (simp add: or_empty_def ascii_lower_def ascii_lower_char_def)
  have 6: "\<not> list_ex (\<lambda>h. sublist h (ascii_lower (or_empty (Some ''YIMBY Manhattan''))))
              QUEENS_FEED_HINTS"
    by (simp add: or_empty_def ascii_lower_def ascii_lower_char_def QUEENS_FEED_HINTS_def
          sublist_code(3))
  from relaxation_rule [OF 1 2 3 4, of "Some ''pincusco''" "Some ''YIMBY Manhattan''"] 5 6
  show ?thesis by blast
qed

lemma contains_keywords_Nil: "\<not> contains_keywords lower t []"
  by (simp add: contains_keywords_def)

lemma contains_borough_Nil: "\<not> contains_borough lower t []"
  by (simp add: contains_borough_def)

text \<open>
  C6. With an empty keyword list the match is false for every text, for the topic
  keywords and for the borough keywords; with an empty must-have list the relevance filter
  returns the empty list for every batch.
\<close>

theorem empty_keyword_lists:
  "\<not> contains_keywords lower t [] \<and> \<not> contains_borough lower t []
   \<and> filter_items lower BOROUGHS [] items = []"
proof -
  have "filter_items lower BOROUGHS [] items = []"
    by (induction items) (simp_all add: contains_keywords_Nil)
  then show ?thesis by (simp add: contains_keywords_Nil contains_borough_Nil)
qed

theorem empty_keyword_lists_witness:
  "filter_items ascii_lower ex_BOROUGHS [] [ex_item, ex_item\<lparr>it_title := Some ''Queens permit''\<rparr>] = []
   \<and> \<not> contains_keywords ascii_lower (Some ''queens permit'') []
   \<and> \<not> contains_borough ascii_lower (Some ''queens permit'') []"
  using empty_keyword_lists [of ascii_lower "Some ''queens permit''" ex_BOROUGHS
          "[ex_item, ex_item\<lparr>it_title := Some ''Queens permit''\<rparr>]"]
  by simp

section \<open>The persisted artifact\<close>

lemma sheet_names_differ: "DAILY_SHEET \<noteq> WEEKLY_SHEET"
  by (simp add: DAILY_SHEET_def WEEKLY_SHEET_def)

lemma canonical_no_helper: "[c \<leftarrow> canonical_columns. c \<noteq> ''date_parsed''] = canonical_columns"
  by (simp add: canonical_columns_def)

lemma canonical_nonempty: "canonical_columns \<noteq> []"
  by (simp add: canonical_columns_def)

lemma crawl_all_safe_columns:
  "crawl_all_safe DataFrame p y c = Inr new_df \<Longrightarrow> columns new_df = canonical_columns"
  by (auto simp: crawl_all_safe_def ensure_cols_def split: sum.splits)

lemma fresh_filter_columns:
  "columns df = canonical_columns
     \<Longrightarrow> columns (fresh_filter to_datetime now w (Some df)) = canonical_columns"
  by (simp add: fresh_filter_def empty_frame_def canonical_no_helper)

lemma concat_canonical:
  "columns a = canonical_columns \<Longrightarrow> columns b = canonical_columns
     \<Longrightarrow> columns (concat_frames a b) = canonical_columns"
  by (simp add: concat_frames_def)

lemma dedupe_columns:
  assumes "columns df_new = canonical_columns"
    and "case df_old of None \<Rightarrow> True | Some old \<Rightarrow> is_empty old \<or> columns old = canonical_columns"
  shows "columns (dedupe df_new df_old) = canonical_columns"
proof (cases df_old)
  case None
  with assms(1) show ?thesis by (simp add: dedupe_def)
next
  case (Some old)
  show ?thesis
  proof (cases "is_empty old")
    case True
    with Some assms(1) show ?thesis by (simp add: dedupe_def)
  next
    case False
    with Some assms(2) have "columns old = canonical_columns" by simp
    with False Some assms(1) show ?thesis
      by (simp add: dedupe_def drop_duplicates_def concat_canonical)
  qed
qed

text \<open>Reading a sheet keeps its header, and an empty sheet is read as an empty frame.\<close>

lemma read_excel_columns [simp]: "columns (read_excel read_rows df) = columns df"
  by (simp add: read_excel_def)

lemma read_excel_is_empty: "is_empty df \<Longrightarrow> is_empty (read_excel read_rows df)"
  by (auto simp: read_excel_def is_empty_def)

lemma sheet_ok_load_sheet:
  "sheet_ok path sheet \<Longrightarrow>
     (case load_sheet read_rows path sheet of
        None \<Rightarrow> True
      | Some old \<Rightarrow> is_empty old \<or> columns old = canonical_columns)"
  by (auto simp: sheet_ok_def load_sheet_def read_excel_is_empty split: option.splits)

lemma save_excel_well_formed:
  "columns d = canonical_columns \<Longrightarrow> columns w = canonical_columns
     \<Longrightarrow> well_formed (save_excel (Some d) (Some w))"
  by (simp add: save_excel_def well_formed_def)

text \<open>What \<open>main\<close> returns when neither the frame constructor nor the writer raises.\<close>

lemma main_Inr_iff:
  "main DataFrame to_datetime read_rows illegal nd nw p y c path = Inr written \<longleftrightarrow>
     (\<exists>rs. DataFrame (crawl_rows p y c) = Inr rs
        \<and> \<not> to_excel_raises illegal
              (dedupe (fresh_filter to_datetime nd DAILY_WINDOW
                         (Some \<lparr>columns = canonical_columns, rows = rs\<rparr>))
                      (load_sheet read_rows path DAILY_SHEET))
        \<and> \<not> to_excel_raises illegal
              (dedupe (fresh_filter to_datetime nw WEEKLY_WINDOW
                         (Some \<lparr>columns = canonical_columns, rows = rs\<rparr>))
                      (load_sheet read_rows path WEEKLY_SHEET))
        \<and> written =
            save_excel
              (Some (dedupe (fresh_filter to_datetime nd DAILY_WINDOW
                               (Some \<lparr>columns = canonical_columns, rows = rs\<rparr>))
                            (load_sheet read_rows path DAILY_SHEET)))
              (Some (dedupe (fresh_filter to_datetime nw WEEKLY_WINDOW
                               (Some \<lparr>columns = canonical_columns, rows = rs\<rparr>))
                            (load_sheet read_rows path WEEKLY_SHEET))))"
  by (auto simp: main_def crawl_all_safe_def ensure_cols_def Let_def split: sum.splits)

lemma main_well_formed:
  assumes "history_ok path"
    and "main DataFrame to_datetime read_rows illegal nd nw p y c path = Inr written"
  shows "well_formed written"
proof -
  let ?new = "\<lambda>rs. Some \<lparr>columns = canonical_columns, rows = rs\<rparr>"
  from assms(2) obtain rs where written:
    "written =
       save_excel
         (Some (dedupe (fresh_filter to_datetime nd DAILY_WINDOW (?new rs))
                       (load_sheet read_rows path DAILY_SHEET)))
         (Some (dedupe (fresh_filter to_datetime nw WEEKLY_WINDOW (?new rs))
                       (load_sheet read_rows path WEEKLY_SHEET)))"
    unfolding main_Inr_iff by blast
  from assms(1) have d: "sheet_ok path DAILY_SHEET" and w: "sheet_ok path WEEKLY_SHEET"
    by (simp_all add: history_ok_def)
  have "columns (dedupe (fresh_filter to_datetime nd DAILY_WINDOW (?new rs))
                        (load_sheet read_rows path DAILY_SHEET)) = canonical_columns"
    by (intro dedupe_columns fresh_filter_columns sheet_ok_load_sheet d) simp
  moreover
  have "columns (dedupe (fresh_filter to_datetime nw WEEKLY_WINDOW (?new rs))
                        (load_sheet read_rows path WEEKLY_SHEET)) = canonical_columns"
    by (intro dedupe_columns fresh_filter_columns sheet_ok_load_sheet w) simp
  ultimately show ?thesis unfolding written by (rule save_excel_well_formed)
qed

lemma failsafe_well_formed: "well_formed (save_excel (Some empty_frame) (Some empty_frame))"
  by (simp add: save_excel_well_formed empty_frame_def)

lemma run_well_formed:
  "history_ok path \<Longrightarrow> well_formed (run DataFrame to_datetime read_rows illegal nd nw p y c path)"
  by (auto simp: run_def failsafe_well_formed split: sum.splits intro: main_well_formed)

lemma well_formed_history_ok:
  assumes "well_formed f"
  shows "history_ok (Some f)"
proof -
  from assms obtain sheets where f: "f = Workbook sheets"
    and names: "map fst sheets = [DAILY_SHEET, WEEKLY_SHEET]"
    and cols: "map (\<lambda>s. columns (snd s)) sheets = [canonical_columns, canonical_columns]"
    by (auto simp: well_formed_def split: xlsx.splits)
  from names obtain d w where "sheets = [(DAILY_SHEET, d), (WEEKLY_SHEET, w)]"
    by (auto simp: map_eq_Cons_conv)
  with cols f show ?thesis
    by (simp add: history_ok_def sheet_ok_def stored_sheet_def sheet_names_differ)
qed

lemma history_ok_None: "history_ok None"
  by (simp add: history_ok_def sheet_ok_def stored_sheet_def)

lemma history_ok_Unreadable: "history_ok (Some Unreadable)"
  by (simp add: history_ok_def sheet_ok_def stored_sheet_def)

lemma ex_rows_legal:
  "\<not> to_excel_raises (\<lambda>s. False) df"
  by (simp add: to_excel_raises_def list_ex_iff split: option.splits)

text \<open>
  A run that finds no file, with one source that raises and one that returns two records
  with the same title and link: both records are inside the weekly window, and the
  weekly sheet written holds both (the merge with an absent history changes nothing).
\<close>

lemma first_run_persists_duplicates:
  "run (\<lambda>raw. Inr raw) ex_to_datetime ex_read_rows (\<lambda>s. False) (hours 100) (hours 100)
         (Some (Inl (Exception ''timeout''))) (Some (Inr [ex_H0, ex_H])) None None
   = Workbook [(DAILY_SHEET, \<lparr>columns = canonical_columns, rows = [ex_H]\<rparr>),
               (WEEKLY_SHEET, \<lparr>columns = canonical_columns, rows = [ex_H0, ex_H]\<rparr>)]"
  by (simp add: run_def main_def crawl_all_safe_def crawl_rows_def extend_safe_def ensure_cols_def
        load_sheet_def stored_sheet_def fresh_filter_def is_empty_def canonical_nonempty
        canonical_no_helper dedupe_def save_excel_def date_parsed_def ex_to_datetime_def
        ex_H_def ex_H0_def DAILY_WINDOW_def WEEKLY_WINDOW_def days_def hours_def ex_rows_legal)

text \<open>
  C8. After every run the file holds the two sheets \<open>daily_log\<close> and \<open>weekly_rollup\<close>,
  each with the six canonical columns in their order, whether \<open>main\<close> returned or raised;
  when it raised, both sheets are empty. The file the run finds is any file whose history
  sheets, where they load and are not empty, have the canonical columns: no file, an
  unreadable file, a workbook without these sheets, and every file a run has written, since
  the file after the run is of this kind again.
\<close>

theorem artifact_well_formed:
  assumes "history_ok path"
  shows "well_formed (run DataFrame to_datetime read_rows illegal now_daily now_weekly
                        pincusco yimby cityrealty path)
       \<and> history_ok (Some (run DataFrame to_datetime read_rows illegal now_daily now_weekly
                              pincusco yimby cityrealty path))
       \<and> (main DataFrame to_datetime read_rows illegal now_daily now_weekly
              pincusco yimby cityrealty path = Inl e
            \<longrightarrow> run DataFrame to_datetime read_rows illegal now_daily now_weekly
                     pincusco yimby cityrealty path
                  = Workbook [(DAILY_SHEET, empty_frame), (WEEKLY_SHEET, empty_frame)])"
proof -
  have "well_formed (run DataFrame to_datetime read_rows illegal now_daily now_weekly
                       pincusco yimby cityrealty path)"
    using assms by (rule run_well_formed)
  moreover from this
  have "history_ok (Some (run DataFrame to_datetime read_rows illegal now_daily now_weekly
                            pincusco yimby cityrealty path))"
    by (rule well_formed_history_ok)
  moreover have "run DataFrame to_datetime read_rows illegal now_daily now_weekly
                   pincusco yimby cityrealty path
                  = Workbook [(DAILY_SHEET, empty_frame), (WEEKLY_SHEET, empty_frame)]"
    if "main DataFrame to_datetime read_rows illegal now_daily now_weekly
          pincusco yimby cityrealty path = Inl e"
    using that by (simp add: run_def save_excel_def)
  ultimately show ?thesis by blast
qed

theorem artifact_well_formed_witness:
  "well_formed (run (\<lambda>raw. Inr raw) ex_to_datetime ex_read_rows (\<lambda>s. False) (hours 100) (hours 100)
                  (Some (Inl (Exception ''timeout''))) (Some (Inr [ex_H0, ex_H])) None None)
   \<and> run (\<lambda>raw. Inl (Exception ''6 columns passed'')) ex_to_datetime ex_read_rows (\<lambda>s. False)
          (hours 100) (hours 100) None (Some (Inr [ex_H0, ex_H])) None (Some Unreadable)
       = Workbook [(DAILY_SHEET, empty_frame), (WEEKLY_SHEET, empty_frame)]
   \<and> run (\<lambda>raw. Inr raw) ex_to_datetime ex_read_rows (\<lambda>s. s = ''A'') (hours 100) (hours 100)
          None (Some (Inr [ex_H0, ex_H])) None None
       = Workbook [(DAILY_SHEET, empty_frame), (WEEKLY_SHEET, empty_frame)]"
proof -
  note a = artifact_well_formed
    [where path = None and DataFrame = "\<lambda>raw. Inr raw" and to_datetime = ex_to_datetime
       and read_rows = ex_read_rows and illegal = "\<lambda>s. False" and now_daily = "hours 100"
       and now_weekly = "hours 100" and pincusco = "Some (Inl (Exception ''timeout''))"
       and yimby = "Some (Inr [ex_H0, ex_H])" and cityrealty = None and e = "Exception []"]
  note b = artifact_well_formed
    [where path = "Some Unreadable" and DataFrame = "\<lambda>raw. Inl (Exception ''6 columns passed'')"
       and to_datetime = ex_to_datetime and read_rows = ex_read_rows and illegal = "\<lambda>s. False"
       and now_daily = "hours 100" and now_weekly = "hours 100" and pincusco = None
       and yimby = "Some (Inr [ex_H0, ex_H])" and cityrealty = None
       and e = "Exception ''6 columns passed''"]
  note c = artifact_well_formed
    [where path = None and DataFrame = "\<lambda>raw. Inr raw" and to_datetime = ex_to_datetime
       and read_rows = ex_read_rows and illegal = "\<lambda>s. s = ''A''" and now_daily = "hours 100"
       and now_weekly = "hours 100" and pincusco = None
       and yimby = "Some (Inr [ex_H0, ex_H])" and cityrealty = None
       and e = "Exception ''IllegalCharacterError''"]
  have mb: "main (\<lambda>raw. Inl (Exception ''6 columns passed'')) ex_to_datetime ex_read_rows
              (\<lambda>s. False) (hours 100) (hours 100) None (Some (Inr [ex_H0, ex_H])) None
              (Some Unreadable) = Inl (Exception ''6 columns passed'')"
    by (simp add: main_def crawl_all_safe_def)
  have mc: "main (\<lambda>raw. Inr raw) ex_to_datetime ex_read_rows (\<lambda>s. s = ''A'') (hours 100)
              (hours 100) None (Some (Inr [ex_H0, ex_H])) None None
            = Inl (Exception ''IllegalCharacterError'')"
    by (simp add: main_def crawl_all_safe_def crawl_rows_def extend_safe_def ensure_cols_def
          load_sheet_def stored_sheet_def fresh_filter_def is_empty_def canonical_nonempty
          dedupe_def date_parsed_def ex_to_datetime_def ex_H_def ex_H0_def
          DAILY_WINDOW_def WEEKLY_WINDOW_def days_def hours_def to_excel_raises_def cells_def)
  from a [OF history_ok_None] b [OF history_ok_Unreadable] c [OF history_ok_None] mb mc
  show ?thesis by simp
qed

section \<open>Failure of one source\<close>













section \<open>The seen set\<close>

lemma enrich_article_url [simp]: "it_url (enrich_article ft a) = it_url a"
  by (simp add: enrich_article_def split: sum.splits)

lemma filter_items_single_cases:
  "filter_items lower B M [it] = [it] \<or> filter_items lower B M [it] = []"
  unfolding filter_items_single by simp

lemma process_item_inv:
  assumes "ingest_inv lower B M seen0 st"
  shows "ingest_inv lower B M seen0 (process_item lower B M ft s st it)"
proof -
  let ?it = "enrich_article ft (it\<lparr>it_source := Some (src_source s), it_feed_name := Some (src_name s)\<rparr>)"
  from filter_items_single_cases [of lower B M ?it] assms show ?thesis
    by (auto simp: ingest_inv_def process_item_def Let_def)
qed

lemma foldl_process_item_inv:
  "ingest_inv lower B M seen0 st
     \<Longrightarrow> ingest_inv lower B M seen0 (foldl (process_item lower B M ft s) st items)"
  by (induction items arbitrary: st) (simp_all add: process_item_inv)

lemma process_source_inv:
  "ingest_inv lower B M seen0 st \<Longrightarrow> ingest_inv lower B M seen0 (process_source lower B M ft st s)"
  by (simp add: process_source_def foldl_process_item_inv split: sum.splits)

lemma foldl_process_source_inv:
  "ingest_inv lower B M seen0 st
     \<Longrightarrow> ingest_inv lower B M seen0 (foldl (process_source lower B M ft) st srcs)"
  by (induction srcs arbitrary: st) (simp_all add: process_source_inv)

lemma ingest_inv_ingest: "ingest_inv lower B M seen (ingest lower B M ft rss html seen)"
  unfolding ingest_def
  by (intro foldl_process_source_inv) (simp add: ingest_inv_def)

lemma finite_load_seen: "finite (load_seen f)"
  by (simp add: load_seen_def split: option.splits)

lemma load_seen_strings: "None \<notin> load_seen f"
  by (auto simp: load_seen_def split: option.splits)

lemma Some_these: "None \<notin> A \<Longrightarrow> Some ` Option.these A = A"
proof
  show "Some ` Option.these A \<subseteq> A" by (auto simp: in_these_eq)
next
  assume n: "None \<notin> A"
  show "A \<subseteq> Some ` Option.these A"
  proof
    fix x assume x: "x \<in> A"
    with n obtain u where "x = Some u" by (cases x) auto
    with x show "x \<in> Some ` Option.these A" by (simp add: in_these_eq)
  qed
qed

text \<open>A finite set of strings is written, and read back as it was.\<close>

lemma load_save_seen:
  assumes "finite seen" and "None \<notin> seen"
  shows "\<exists>written. save_seen seen = Inr written \<and> load_seen (Some written) = seen"
proof -
  let ?w = "[[u]. u \<leftarrow> sorted_list_of_set (Option.these seen)]"
  from assms(1) have fin: "finite (Option.these seen)"
    by (simp add: Option.these_def)
  have "set [Some (hd l). l \<leftarrow> ?w, l \<noteq> []] = Some ` set (sorted_list_of_set (Option.these seen))"
    by (induction "sorted_list_of_set (Option.these seen)") auto
  with fin have "load_seen (Some ?w) = Some ` Option.these seen"
    by (simp add: load_seen_def)
  with assms(2) have "load_seen (Some ?w) = seen" by (simp add: Some_these)
  moreover from assms(2) have "save_seen seen = Inr ?w" by (simp add: save_seen_def)
  ultimately show ?thesis by blast
qed

lemma ex_enrich_a:
  "enrich_article ex_fetch_text
     (ex_item\<lparr>it_source := Some (src_source ex_src_good), it_feed_name := Some (src_name ex_src_good)\<rparr>)
   = ex_kept"
  by (simp add: enrich_article_def ex_fetch_text_def ex_item_def ex_src_good_def ex_kept_def)

lemma ex_kept_passes: "filter_items ascii_lower ex_BOROUGHS ex_MUST_ANY [ex_kept] = [ex_kept]"
proof -
  have b: "text_blob ascii_lower ex_kept
             = ''new tower: permit filed plans for 12 floors filed on monday.''"
    by (simp add: text_blob_def ex_kept_def ex_item_def or_empty_def ascii_lower_def
          ascii_lower_char_def)
  have y: "is_yimby_queens_feed ascii_lower ex_kept"
    by (simp add: is_yimby_queens_feed_def ex_kept_def ex_item_def or_empty_def ascii_lower_def
          ascii_lower_char_def QUEENS_FEED_HINTS_def sublist_code(3))
  have k: "contains_keywords ascii_lower (Some (text_blob ascii_lower ex_kept)) ex_MUST_ANY"
    unfolding b by (simp add: contains_keywords_def ex_MUST_ANY_def or_empty_def ascii_lower_def
          ascii_lower_char_def sublist_code(3))
  from y k show ?thesis by (simp add: filter_items_single)
qed

lemma ex_enrich_b:
  "enrich_article ex_fetch_text
     (ex_other\<lparr>it_source := Some (src_source ex_src_other), it_feed_name := Some (src_name ex_src_other)\<rparr>)
   = ex_rejected"
  by (simp add: enrich_article_def ex_fetch_text_def ex_item_def ex_src_other_def ex_other_def
        ex_rejected_def)

lemma ex_rejected_fails: "filter_items ascii_lower ex_BOROUGHS ex_MUST_ANY [ex_rejected] = []"
proof -
  have b: "text_blob ascii_lower ex_rejected = ''new tower: permit filed plans for 12 floors ''"
    by (simp add: text_blob_def ex_rejected_def ex_item_def or_empty_def ascii_lower_def
          ascii_lower_char_def)
  have y: "\<not> is_yimby_queens_feed ascii_lower ex_rejected"
    by (simp add: is_yimby_queens_feed_def ex_rejected_def ex_item_def or_empty_def ascii_lower_def
          ascii_lower_char_def)
  have k: "\<not> contains_borough ascii_lower (Some (text_blob ascii_lower ex_rejected)) ex_BOROUGHS"
    unfolding b by (simp add: contains_borough_def ex_BOROUGHS_def or_empty_def ascii_lower_def
          ascii_lower_char_def sublist_code(3))
  from y k show ?thesis by (simp add: filter_items_single)
qed

lemma ex_ingest:
  "ingest ascii_lower ex_BOROUGHS ex_MUST_ANY ex_fetch_text [ex_src_good] [ex_src_other]
     {Some ''https://example.org/old''}
   = ({Some ''https://example.org/a'', Some ''https://example.org/old''}, [ex_kept])"
proof -
  have g: "src_fetch ex_src_good = Inr [ex_item]" by (simp add: ex_src_good_def)
  have o: "src_fetch ex_src_other = Inr [ex_other]" by (simp add: ex_src_other_def)
  have u: "it_url ex_item = Some ''https://example.org/a''"
    "it_url ex_other = Some ''https://example.org/b''"
    "it_url ex_kept = Some ''https://example.org/a''"
    by (simp_all add: ex_item_def ex_other_def ex_kept_def)
  show ?thesis
    by (simp add: ingest_def process_source_def g o process_item_def Let_def u
          ex_enrich_a ex_enrich_b ex_kept_passes ex_rejected_fails del: filter_items.simps)
qed

lemma ex_load_seen:
  "load_seen (Some [[''https://example.org/old'']]) = {Some ''https://example.org/old''}"
  by (simp add: load_seen_def)

text \<open>
  An RSS entry without a link that passes the filter: \<open>None\<close> enters the seen set beside
  the link loaded, \<open>save_seen\<close> raises in \<open>sorted\<close>, and the seen-set file is left empty.
  \<open>parse_html_list\<close> skips a block without a link; \<open>parse_rss\<close> does not.
\<close>

lemma linkless_item_empties_seen_file:
  "scraper_main ascii_lower ex_BOROUGHS ex_MUST_ANY ex_fetch_text (\<lambda>df. Inr df) (days 100)
     [ex_src_linkless] [] (Some [[''https://example.org/old'']])
   = \<lparr>excel = Some [ex_linkless], seen_file = Some [],
      raised = Some (Exception ''TypeError: < not supported between NoneType and str'')\<rparr>"
proof -
  have e: "enrich_article ex_fetch_text
             (ex_linkless\<lparr>it_source := Some (src_source ex_src_linkless),
                           it_feed_name := Some (src_name ex_src_linkless)\<rparr>) = ex_linkless"
    by (simp add: enrich_article_def ex_fetch_text_def ex_linkless_def ex_item_def
          ex_src_linkless_def)
  have b: "text_blob ascii_lower ex_linkless = ''new tower: permit filed plans for 12 floors ''"
    by (simp add: text_blob_def ex_linkless_def ex_item_def or_empty_def ascii_lower_def
          ascii_lower_char_def)
  have y: "is_yimby_queens_feed ascii_lower ex_linkless"
    by (simp add: is_yimby_queens_feed_def ex_linkless_def ex_item_def or_empty_def ascii_lower_def
          ascii_lower_char_def QUEENS_FEED_HINTS_def sublist_code(3))
  have k: "contains_keywords ascii_lower (Some (text_blob ascii_lower ex_linkless)) ex_MUST_ANY"
    unfolding b by (simp add: contains_keywords_def ex_MUST_ANY_def or_empty_def ascii_lower_def
          ascii_lower_char_def sublist_code(3))
  from y k have p: "filter_items ascii_lower ex_BOROUGHS ex_MUST_ANY [ex_linkless] = [ex_linkless]"
    by (simp add: filter_items_single)
  have f: "src_fetch ex_src_linkless = Inr [ex_linkless]" by (simp add: ex_src_linkless_def)
  have u: "it_url ex_linkless = None" "it_published ex_linkless = None"
    by (simp_all add: ex_linkless_def ex_item_def)
  have i: "ingest ascii_lower ex_BOROUGHS ex_MUST_ANY ex_fetch_text [ex_src_linkless] []
             {Some ''https://example.org/old''}
           = ({None, Some ''https://example.org/old''}, [ex_linkless])"
    by (simp add: ingest_def process_source_def f process_item_def Let_def u e p
          del: filter_items.simps)
  have s: "save_seen {None, Some ''https://example.org/old''}
           = Inl (Exception ''TypeError: < not supported between NoneType and str'')"
    by (simp add: save_seen_def)
  show ?thesis
    by (simp add: scraper_main_def ex_load_seen i s fresh_rows_def fresh_def u)
qed

text \<open>
  C10, as stated: for every run the seen set persisted at the end of the run is the seen
  set loaded and the links of the kept rows. \<open>save_seen\<close> is the last call of \<open>main\<close>,
  after the export and outside every \<open>try\<close>: in a run whose export raises, the row
  \<open>ex_kept\<close> was kept, and the seen-set file after the run does not hold its link.
\<close>

theorem export_failure_loses_kept_links:
  "snd (ingest ascii_lower ex_BOROUGHS ex_MUST_ANY ex_fetch_text [ex_src_good] [ex_src_other]
          (load_seen (Some [[''https://example.org/old'']]))) = [ex_kept]
   \<and> it_url ex_kept = Some ''https://example.org/a''
   \<and> Some ''https://example.org/a''
       \<notin> load_seen (seen_file
            (scraper_main ascii_lower ex_BOROUGHS ex_MUST_ANY ex_fetch_text
               (\<lambda>df. Inl (Exception ''sort_values'') :: error + item list) (days 100)
               [ex_src_good] [ex_src_other] (Some [[''https://example.org/old'']])))"
  by (simp add: scraper_main_def ex_load_seen ex_ingest ex_kept_def ex_item_def)

text \<open>
  C10, amended: in a run of scraper.py whose export does not raise and whose kept rows
  all have a link, the seen set persisted at the end of the run is the seen set loaded and
  the links of the kept rows, and every kept row passes the relevance filter. In every
  run, an item the filter rejects leaves the seen set and the kept rows as they are, and an
  item whose link is not in the seen set is not skipped: it is enriched and filtered, and
  its link is added only when it passes.
\<close>

theorem seen_set_is_loaded_plus_kept:
  assumes "to_excel (fresh_rows now
              (snd (ingest lower BOROUGHS MUST_ANY fetch_text rss html (load_seen seen_path))))
             = Inr sheet"
    and "list_all (\<lambda>it. it_url it \<noteq> None)
           (snd (ingest lower BOROUGHS MUST_ANY fetch_text rss html (load_seen seen_path)))"
  shows "(\<exists>written.
            scraper_main lower BOROUGHS MUST_ANY fetch_text to_excel now rss html seen_path
              = \<lparr>excel = Some sheet, seen_file = Some written, raised = None\<rparr>
            \<and> load_seen (Some written)
                = load_seen seen_path
                  \<union> it_url ` set (snd (ingest lower BOROUGHS MUST_ANY fetch_text rss html
                                          (load_seen seen_path))))
       \<and> list_all (\<lambda>it. filter_items lower BOROUGHS MUST_ANY [it] = [it])
            (snd (ingest lower BOROUGHS MUST_ANY fetch_text rss html (load_seen seen_path)))
       \<and> (filter_items lower BOROUGHS MUST_ANY
             [enrich_article fetch_text
                (it\<lparr>it_source := Some (src_source s), it_feed_name := Some (src_name s)\<rparr>)] = []
          \<longrightarrow> process_item lower BOROUGHS MUST_ANY fetch_text s (seen, kept) it = (seen, kept))
       \<and> (it_url it \<notin> seen
          \<longrightarrow> process_item lower BOROUGHS MUST_ANY fetch_text s (seen, kept) it
              = (if filter_items lower BOROUGHS MUST_ANY
                      [enrich_article fetch_text
                         (it\<lparr>it_source := Some (src_source s), it_feed_name := Some (src_name s)\<rparr>)] \<noteq> []
                 then (insert (it_url it) seen,
                       kept @ [enrich_article fetch_text
                                 (it\<lparr>it_source := Some (src_source s), it_feed_name := Some (src_name s)\<rparr>)])
                 else (seen, kept)))"
proof -
  let ?st = "ingest lower BOROUGHS MUST_ANY fetch_text rss html (load_seen seen_path)"
  have inv: "ingest_inv lower BOROUGHS MUST_ANY (load_seen seen_path) ?st"
    by (rule ingest_inv_ingest)
  then have eq: "fst ?st = load_seen seen_path \<union> it_url ` set (snd ?st)"
    and pass: "list_all (\<lambda>it. filter_items lower BOROUGHS MUST_ANY [it] = [it]) (snd ?st)"
    by (simp_all add: ingest_inv_def)
  from eq have fin: "finite (fst ?st)" by (simp add: finite_load_seen)
  from assms(2) have "None \<notin> it_url ` set (snd ?st)"
    by (auto simp: list_all_iff)
  with eq have "None \<notin> fst ?st" by (simp add: load_seen_strings)
  with fin obtain written where w: "save_seen (fst ?st) = Inr written"
    and l: "load_seen (Some written) = fst ?st"
    using load_save_seen by blast
  from assms(1) w have "scraper_main lower BOROUGHS MUST_ANY fetch_text to_excel now rss html seen_path
                   = \<lparr>excel = Some sheet, seen_file = Some written, raised = None\<rparr>"
    by (simp add: scraper_main_def Let_def)
  with l eq have 1: "\<exists>written.
            scraper_main lower BOROUGHS MUST_ANY fetch_text to_excel now rss html seen_path
              = \<lparr>excel = Some sheet, seen_file = Some written, raised = None\<rparr>
            \<and> load_seen (Some written) = load_seen seen_path \<union> it_url ` set (snd ?st)"
    by auto
  have 3: "process_item lower BOROUGHS MUST_ANY fetch_text s (seen, kept) it = (seen, kept)"
    if "filter_items lower BOROUGHS MUST_ANY
             [enrich_article fetch_text
                (it\<lparr>it_source := Some (src_source s), it_feed_name := Some (src_name s)\<rparr>)] = []"
    using that by (simp add: process_item_def Let_def)
  have 4: "process_item lower BOROUGHS MUST_ANY fetch_text s (seen, kept) it
              = (if filter_items lower BOROUGHS MUST_ANY
                      [enrich_article fetch_text
                         (it\<lparr>it_source := Some (src_source s), it_feed_name := Some (src_name s)\<rparr>)] \<noteq> []
                 then (insert (it_url it) seen,
                       kept @ [enrich_article fetch_text
                                 (it\<lparr>it_source := Some (src_source s), it_feed_name := Some (src_name s)\<rparr>)])
                 else (seen, kept))"
    if "it_url it \<notin> seen"
    using that by (simp add: process_item_def Let_def)
  from 1 pass 3 4 show ?thesis by blast
qed

theorem seen_set_is_loaded_plus_kept_witness:
  "(\<exists>written.
      scraper_main ascii_lower ex_BOROUGHS ex_MUST_ANY ex_fetch_text (\<lambda>df. Inr df) (days 100)
        [ex_src_good] [ex_src_other] (Some [[''https://example.org/old'']])
        = \<lparr>excel = Some [ex_kept], seen_file = Some written, raised = None\<rparr>
      \<and> load_seen (Some written)
          = {Some ''https://example.org/a'', Some ''https://example.org/old''})
   \<and> process_item ascii_lower ex_BOROUGHS ex_MUST_ANY ex_fetch_text ex_src_other
        ({Some ''https://example.org/a'', Some ''https://example.org/old''}, [ex_kept]) ex_other
      = ({Some ''https://example.org/a'', Some ''https://example.org/old''}, [ex_kept])
   \<and> process_item ascii_lower ex_BOROUGHS ex_MUST_ANY ex_fetch_text ex_src_good
        ({Some ''https://example.org/old''}, []) ex_item
      = ({Some ''https://example.org/a'', Some ''https://example.org/old''}, [ex_kept])"
proof -
  note l = ex_load_seen
  have x: "Inr (fresh_rows (days 100)
             (snd (ingest ascii_lower ex_BOROUGHS ex_MUST_ANY ex_fetch_text [ex_src_good] [ex_src_other]
                     (load_seen (Some [[''https://example.org/old'']])))))
           = (Inr [ex_kept] :: error + item list)"
    by (simp add: l ex_ingest fresh_rows_def fresh_def ex_kept_def ex_item_def)
  have n: "list_all (\<lambda>it. it_url it \<noteq> None)
             (snd (ingest ascii_lower ex_BOROUGHS ex_MUST_ANY ex_fetch_text [ex_src_good] [ex_src_other]
                     (load_seen (Some [[''https://example.org/old'']]))))"
    by (simp add: l ex_ingest ex_kept_def ex_item_def)
  have u: "it_url ex_item \<notin> {Some ''https://example.org/old''}"
    "it_url ex_item = Some ''https://example.org/a''"
    by (simp_all add: ex_item_def)
  note t1 = seen_set_is_loaded_plus_kept [where lower = ascii_lower and BOROUGHS = ex_BOROUGHS
              and MUST_ANY = ex_MUST_ANY
              and fetch_text = ex_fetch_text and to_excel = "\<lambda>df. Inr df" and now = "days 100"
              and rss = "[ex_src_good]" and html = "[ex_src_other]"
              and seen_path = "Some [[''https://example.org/old'']]" and sheet = "[ex_kept]"
              and s = ex_src_other and it = ex_other
              and seen = "{Some ''https://example.org/a'', Some ''https://example.org/old''}"
              and kept = "[ex_kept]", OF x n]
  note t2 = seen_set_is_loaded_plus_kept [where lower = ascii_lower and BOROUGHS = ex_BOROUGHS
              and MUST_ANY = ex_MUST_ANY
              and fetch_text = ex_fetch_text and to_excel = "\<lambda>df. Inr df" and now = "days 100"
              and rss = "[ex_src_good]" and html = "[ex_src_other]"
              and seen_path = "Some [[''https://example.org/old'']]" and sheet = "[ex_kept]"
              and s = ex_src_good and it = ex_item
              and seen = "{Some ''https://example.org/old''}" and kept = "[]", OF x n]
  from t1 have 1: "\<exists>written.
      scraper_main ascii_lower ex_BOROUGHS ex_MUST_ANY ex_fetch_text (\<lambda>df. Inr df) (days 100)
        [ex_src_good] [ex_src_other] (Some [[''https://example.org/old'']])
        = \<lparr>excel = Some [ex_kept], seen_file = Some written, raised = None\<rparr>
      \<and> load_seen (Some written)
          = {Some ''https://example.org/a'', Some ''https://example.org/old''}"
    by (simp add: l ex_ingest u ex_kept_def)
  from t1 have 2: "process_item ascii_lower ex_BOROUGHS ex_MUST_ANY ex_fetch_text ex_src_other
        ({Some ''https://example.org/a'', Some ''https://example.org/old''}, [ex_kept]) ex_other
      = ({Some ''https://example.org/a'', Some ''https://example.org/old''}, [ex_kept])"
    by (simp add: ex_enrich_b ex_rejected_fails del: filter_items.simps)
  from t2 u have 3: "process_item ascii_lower ex_BOROUGHS ex_MUST_ANY ex_fetch_text ex_src_good
        ({Some ''https://example.org/old''}, []) ex_item
      = ({Some ''https://example.org/a'', Some ''https://example.org/old''}, [ex_kept])"
    by (simp add: ex_enrich_a ex_kept_passes del: filter_items.simps)
  from 1 2 3 show ?thesis by blast
qed

end
